theory Spec2Isabelle
  imports Complex_Main "HOL-Library.Multiset"
begin

section \<open>The database rows (app/dbmodels/models.py)\<close>

text \<open>
  Each Django model is a record whose fields are the model's columns. A column that several
  models share by name (\<open>id\<close>, \<open>player\<close>, \<open>game\<close>, \<open>action_type\<close>) carries the model's
  name as a prefix; a foreign key holds the primary key of the row it points to; a
  \<open>FloatField\<close> is a real number (the code only copies these values).
\<close>

record Player =
  player_id :: int
  player_name :: string
  player_team :: int

record Shot =
  shot_id :: int
  shot_player :: int
  shot_game :: int
  shot_points :: int
  shot_shooting_foul_drawn :: bool
  shot_loc_x :: real
  shot_loc_y :: real
  shot_action_type :: string

record Pass =
  pass_id :: int
  pass_player :: int
  pass_game :: int
  pass_completed_pass :: bool
  pass_potential_assist :: bool
  pass_turnover :: bool
  pass_ball_start_loc_x :: real
  pass_ball_start_loc_y :: real
  pass_ball_end_loc_x :: real
  pass_ball_end_loc_y :: real
  pass_action_type :: string

record Turnover =
  tov_id :: int
  tov_player :: int
  tov_game :: int
  tov_loc_x :: real
  tov_loc_y :: real
  tov_action_type :: string

text \<open>
  The database: one list of rows per table, in the order in which an unordered query
  returns them.
\<close>

record database =
  Player_objects :: "Player list"
  Shot_objects :: "Shot list"
  Pass_objects :: "Pass list"
  Turnover_objects :: "Turnover list"

section \<open>The dictionaries that the helpers return (app/helpers/players.py)\<close>

text \<open>
  The six totals occur both in the summary and in each per-action dictionary, under the
  same keys, so both records extend the record of the six totals.
\<close>

record located =
  loc :: "real list"

record shot_entry = located +
  points :: int

record pass_entry =
  startLoc :: "real list"
  endLoc :: "real list"
  isCompleted :: bool
  isPotentialAssist :: bool
  isTurnover :: bool

record totals =
  totalShotAttempts :: int
  totalPoints :: int
  totalPasses :: int
  totalPotentialAssists :: int
  totalTurnovers :: int
  totalPassingTurnovers :: int

record action_stats = totals +
  shots :: "shot_entry list"
  passes :: "pass_entry list"
  turnovers :: "located list"

record player_summary = totals +
  name :: string
  playerID :: int
  pickAndRollCount :: int
  isolationCount :: int
  postUpCount :: int
  offBallScreenCount :: int
  pickAndRoll :: action_stats
  isolation :: action_stats
  postUp :: action_stats
  offBallScreen :: action_stats

text \<open>
  \<open>get_player_summary_stats\<close> returns either the dictionary \<open>{"error": msg}\<close> or the
  summary dictionary; an exception that leaves the function is the left summand.
\<close>

datatype summary_dict = ErrorDict string | Summary player_summary

datatype exn = ValueError

section \<open>\<open>int(player_id)\<close>\<close>

text \<open>
  A \<open>str\<close> is the list of its code points, and a \<open>char\<close> is the code point of its
  number, so the strings here are those whose code points are below 256.

  Python's \<open>int\<close> on such a string, base 10: white space is stripped at both ends, one
  sign may come first, and the rest is a non-empty run of decimal digits in which single
  underscores may separate digits. The white space that \<open>int\<close> strips is tab, line feed,
  vertical tab, form feed, carriage return and space, and of the code points from 128 on,
  next line (0x85) and no-break space (0xA0); the separators 0x1C to 0x1F are not stripped.
  The only decimal digits below 256 are the ten ASCII digits. A literal with more than
  \<open>sys.int_info.default_max_str_digits\<close> digits, leading zeros counted and underscores
  not, is refused. Every refusal is a \<open>ValueError\<close>, which is \<open>None\<close> here.
\<close>

definition py_isspace :: "char \<Rightarrow> bool" where
  "py_isspace c =
     (c \<in> set [CHR 0x09, CHR 0x0A, CHR 0x0B, CHR 0x0C, CHR 0x0D, CHR '' '',
                CHR 0x85, CHR 0xA0])"

definition py_isdigit :: "char \<Rightarrow> bool" where
  "py_isdigit c = (c \<in> set ''0123456789'')"

definition digit_value :: "char \<Rightarrow> nat" where
  "digit_value c = of_char c - 48"

definition default_max_str_digits :: nat where
  "default_max_str_digits = 4300"

fun py_digits :: "nat \<Rightarrow> bool \<Rightarrow> string \<Rightarrow> nat option" where
  "py_digits acc prev [] = (if prev then Some acc else None)"
| "py_digits acc prev (c # cs) =
     (if py_isdigit c then py_digits (10 * acc + digit_value c) True cs
      else if c = CHR ''_'' \<and> prev then py_digits acc False cs
      else None)"

definition py_strip :: "string \<Rightarrow> string" where
  "py_strip s = rev (dropWhile py_isspace (rev (dropWhile py_isspace s)))"

text \<open>The literal after the sign: the limit on the digits, then the value.\<close>

definition py_literal :: "string \<Rightarrow> nat option" where
  "py_literal body =
     (if length (filter py_isdigit body) > default_max_str_digits then None
      else py_digits 0 False body)"

definition py_int :: "string \<Rightarrow> int option" where
  "py_int s =
     (case py_strip s of
        [] \<Rightarrow> None
      | c # cs \<Rightarrow>
          if c = CHR ''-'' then map_option (\<lambda>n. - int n) (py_literal cs)
          else if c = CHR ''+'' then map_option int (py_literal cs)
          else map_option int (py_literal (c # cs)))"

section \<open>The queries\<close>

text \<open>\<open>Player.objects.get(player_id=n)\<close>; \<open>None\<close> is \<open>Player.DoesNotExist\<close>.\<close>

definition Player_objects_get :: "database \<Rightarrow> int \<Rightarrow> Player option" where
  "Player_objects_get db n = find (\<lambda>p. player_id p = n) (Player_objects db)"

text \<open>\<open>Shot.objects.filter(player=p)\<close> and its two siblings.\<close>

definition Shot_filter_player :: "database \<Rightarrow> Player \<Rightarrow> Shot list" where
  "Shot_filter_player db p = filter (\<lambda>s. shot_player s = player_id p) (Shot_objects db)"

definition Pass_filter_player :: "database \<Rightarrow> Player \<Rightarrow> Pass list" where
  "Pass_filter_player db p = filter (\<lambda>s. pass_player s = player_id p) (Pass_objects db)"

definition Turnover_filter_player :: "database \<Rightarrow> Player \<Rightarrow> Turnover list" where
  "Turnover_filter_player db p = filter (\<lambda>s. tov_player s = player_id p) (Turnover_objects db)"

section \<open>\<open>get_player_summary_stats\<close>\<close>

definition shots_data :: "Shot list \<Rightarrow> shot_entry list" where
  "shots_data action_shots =
     map (\<lambda>shot. \<lparr>loc = [shot_loc_x shot, shot_loc_y shot], points = shot_points shot\<rparr>)
       action_shots"

definition passes_data :: "Pass list \<Rightarrow> pass_entry list" where
  "passes_data action_passes =
     map (\<lambda>p. \<lparr>startLoc = [pass_ball_start_loc_x p, pass_ball_start_loc_y p],
               endLoc = [pass_ball_end_loc_x p, pass_ball_end_loc_y p],
               isCompleted = pass_completed_pass p,
               isPotentialAssist = pass_potential_assist p,
               isTurnover = pass_turnover p\<rparr>)
       action_passes"

definition turnovers_data :: "Turnover list \<Rightarrow> located list" where
  "turnovers_data action_turnovers =
     map (\<lambda>tov. \<lparr>loc = [tov_loc_x tov, tov_loc_y tov]\<rparr>) action_turnovers"

text \<open>
  The inner function \<open>get_action_stats\<close> closes over the player's three query sets; they
  are its first three arguments here.
\<close>

definition get_action_stats ::
  "Shot list \<Rightarrow> Pass list \<Rightarrow> Turnover list \<Rightarrow> string \<Rightarrow> action_stats" where
  "get_action_stats shots0 passes0 turnovers0 action_type =
     (let action_shots = filter (\<lambda>s. shot_action_type s = action_type) shots0;
          action_passes = filter (\<lambda>p. pass_action_type p = action_type) passes0;
          action_turnovers = filter (\<lambda>t. tov_action_type t = action_type) turnovers0
      in \<lparr>totalShotAttempts = int (length action_shots),
          totalPoints = sum_list (map shot_points action_shots),
          totalPasses = int (length action_passes),
          totalPotentialAssists = int (length (filter pass_potential_assist action_passes)),
          totalTurnovers = int (length action_turnovers)
                           + int (length (filter pass_turnover action_passes)),
          totalPassingTurnovers = int (length (filter pass_turnover action_passes)),
          shots = shots_data action_shots,
          passes = passes_data action_passes,
          turnovers = turnovers_data action_turnovers\<rparr>)"

text \<open>The count of one action over the three query sets (lines 110 to 124).\<close>

definition action_count :: "Shot list \<Rightarrow> Pass list \<Rightarrow> Turnover list \<Rightarrow> string \<Rightarrow> int" where
  "action_count shots0 passes0 turnovers0 action_type =
     int (length (filter (\<lambda>s. shot_action_type s = action_type) shots0))
     + int (length (filter (\<lambda>p. pass_action_type p = action_type) passes0))
     + int (length (filter (\<lambda>t. tov_action_type t = action_type) turnovers0))"

text \<open>
  Lines 37 to 143: what \<open>get_player_summary_stats\<close> computes once the player is found.
\<close>

definition summary_of :: "database \<Rightarrow> Player \<Rightarrow> player_summary" where
  "summary_of db player =
     (let shots0 = Shot_filter_player db player;
          passes0 = Pass_filter_player db player;
          turnovers0 = Turnover_filter_player db player
      in \<lparr>totalShotAttempts = int (length shots0),
          totalPoints = sum_list (map shot_points shots0),
          totalPasses = int (length passes0),
          totalPotentialAssists = int (length (filter pass_potential_assist passes0)),
          totalTurnovers = int (length turnovers0)
                           + int (length (filter pass_turnover passes0)),
          totalPassingTurnovers = int (length (filter pass_turnover passes0)),
          name = player_name player,
          playerID = player_id player,
          pickAndRollCount = action_count shots0 passes0 turnovers0 ''pickAndRoll'',
          isolationCount = action_count shots0 passes0 turnovers0 ''isolation'',
          postUpCount = action_count shots0 passes0 turnovers0 ''postUp'',
          offBallScreenCount = action_count shots0 passes0 turnovers0 ''offBallScreen'',
          pickAndRoll = get_action_stats shots0 passes0 turnovers0 ''pickAndRoll'',
          isolation = get_action_stats shots0 passes0 turnovers0 ''isolation'',
          postUp = get_action_stats shots0 passes0 turnovers0 ''postUp'',
          offBallScreen = get_action_stats shots0 passes0 turnovers0 ''offBallScreen''\<rparr>)"

text \<open>
  Lines 32 to 35: \<open>int(player_id)\<close> stands inside the \<open>try\<close>, whose only handler is for
  \<open>Player.DoesNotExist\<close>, so its \<open>ValueError\<close> leaves the function.
\<close>

definition get_player_summary_stats :: "database \<Rightarrow> string \<Rightarrow> exn + summary_dict" where
  "get_player_summary_stats db pid =
     (case py_int pid of
        None \<Rightarrow> Inl ValueError
      | Some n \<Rightarrow>
          (case Player_objects_get db n of
             None \<Rightarrow> Inr (ErrorDict (''Player with ID '' @ pid @ '' not found''))
           | Some player \<Rightarrow> Inr (Summary (summary_of db player))))"

section \<open>\<open>get_ranks\<close>\<close>

text \<open>
  \<open>player_summary.get(key, 0)\<close> at one of the ten keys that \<open>get_ranks\<close> reads. The
  argument is a dictionary returned by \<open>get_player_summary_stats\<close>; the error dictionary
  has none of the ten keys.
\<close>

definition summary_get :: "summary_dict \<Rightarrow> string \<Rightarrow> int \<Rightarrow> int" where
  "summary_get d key dflt =
     (case d of
        ErrorDict _ \<Rightarrow> dflt
      | Summary s \<Rightarrow>
          if key = ''totalShotAttempts'' then totalShotAttempts s
          else if key = ''totalPoints'' then totalPoints s
          else if key = ''totalPasses'' then totalPasses s
          else if key = ''totalPotentialAssists'' then totalPotentialAssists s
          else if key = ''totalTurnovers'' then totalTurnovers s
          else if key = ''totalPassingTurnovers'' then totalPassingTurnovers s
          else if key = ''pickAndRollCount'' then pickAndRollCount s
          else if key = ''isolationCount'' then isolationCount s
          else if key = ''postUpCount'' then postUpCount s
          else if key = ''offBallScreenCount'' then offBallScreenCount s
          else dflt)"

subsection \<open>The annotated queries\<close>

text \<open>
  \<open>Player.objects.annotate(c=Count('shots'))\<close> is the SQL query
  \<^verbatim>\<open>SELECT ..., COUNT(shots.id) AS c FROM players
    LEFT OUTER JOIN shots ON (players.player_id = shots.player_id)
    GROUP BY players.player_id\<close>.
  The group of a player holds one row per related row, or a single row of NULLs when
  there is none; \<open>COUNT\<close> counts the rows of the group in which its argument is not NULL,
  and with \<open>filter=Q(...)\<close> only those that satisfy the condition as well.
\<close>

definition left_outer_join :: "'a list \<Rightarrow> 'a option list" where
  "left_outer_join related = (if related = [] then [None] else map Some related)"

definition Count :: "('row \<Rightarrow> bool) \<Rightarrow> 'row list \<Rightarrow> int" where
  "Count counted rows = int (length (filter counted rows))"

definition shot_count :: "database \<Rightarrow> Player \<Rightarrow> int" where
  "shot_count db p =
     Count (\<lambda>shot. shot \<noteq> None) (left_outer_join (Shot_filter_player db p))"

definition pass_count :: "database \<Rightarrow> Player \<Rightarrow> int" where
  "pass_count db p =
     Count (\<lambda>pass. pass \<noteq> None) (left_outer_join (Pass_filter_player db p))"

definition assist_count :: "database \<Rightarrow> Player \<Rightarrow> int" where
  "assist_count db p =
     Count (\<lambda>pass. case pass of None \<Rightarrow> False | Some x \<Rightarrow> pass_potential_assist x)
       (left_outer_join (Pass_filter_player db p))"

definition pass_tov_count :: "database \<Rightarrow> Player \<Rightarrow> int" where
  "pass_tov_count db p =
     Count (\<lambda>pass. case pass of None \<Rightarrow> False | Some x \<Rightarrow> pass_turnover x)
       (left_outer_join (Pass_filter_player db p))"

text \<open>
  The annotation \<open>Count('turnovers') + Count('passes', filter=Q(passes__turnover=True))\<close>
  names two relations, so the query joins both tables:
  \<^verbatim>\<open>FROM players
    LEFT OUTER JOIN turnovers ON (players.player_id = turnovers.player_id)
    LEFT OUTER JOIN passes ON (players.player_id = passes.player_id)\<close>
  and the group of a player holds every pair of a turnover row and a pass row. Neither
  \<open>Count\<close> is \<open>distinct\<close>, so both count over the pairs.
\<close>

definition tov_count :: "database \<Rightarrow> Player \<Rightarrow> int" where
  "tov_count db p =
     (let rows = List.product (left_outer_join (Turnover_filter_player db p))
                              (left_outer_join (Pass_filter_player db p))
      in Count (\<lambda>(tov, pass). tov \<noteq> None) rows
         + Count (\<lambda>(tov, pass). case pass of None \<Rightarrow> False | Some x \<Rightarrow> pass_turnover x) rows)"

text \<open>\<open>Shot.objects.filter(player=p).aggregate(Sum('points'))['points__sum']\<close>.\<close>

definition points__sum :: "database \<Rightarrow> Player \<Rightarrow> int option" where
  "points__sum db p =
     (let rows = Shot_filter_player db p
      in if rows = [] then None else Some (sum_list (map shot_points rows)))"

text \<open>\<open>x or 0\<close> for an integer or \<open>None\<close>.\<close>

definition or_0 :: "int option \<Rightarrow> int" where
  "or_0 x = (case x of None \<Rightarrow> 0 | Some v \<Rightarrow> if v = 0 then 0 else v)"

text \<open>\<open>Model.objects.filter(player=p, action_type=a).count()\<close>, summed over the three models.\<close>

definition count_action :: "database \<Rightarrow> Player \<Rightarrow> string \<Rightarrow> int" where
  "count_action db p a =
     int (length (filter (\<lambda>s. shot_player s = player_id p \<and> shot_action_type s = a)
                    (Shot_objects db)))
     + int (length (filter (\<lambda>s. pass_player s = player_id p \<and> pass_action_type s = a)
                      (Pass_objects db)))
     + int (length (filter (\<lambda>s. tov_player s = player_id p \<and> tov_action_type s = a)
                      (Turnover_objects db)))"

text \<open>
  The loop \<open>for p in all_players: if value(p) > player_value: better_count += 1\<close>,
  started at \<open>better_count = 0\<close>.
\<close>

definition count_better :: "(Player \<Rightarrow> int) \<Rightarrow> int \<Rightarrow> Player list \<Rightarrow> int" where
  "count_better val player_value all_players =
     fold (\<lambda>p better_count. if val p > player_value then better_count + 1 else better_count)
       all_players 0"

text \<open>\<open>queryset.filter(c__gt=player_value).count()\<close> on an annotated query.\<close>

definition filter_gt_count :: "(Player \<Rightarrow> int) \<Rightarrow> int \<Rightarrow> Player list \<Rightarrow> int" where
  "filter_gt_count c player_value players = int (length (filter (\<lambda>p. c p > player_value) players))"

definition calculate_rank :: "database \<Rightarrow> string \<Rightarrow> int \<Rightarrow> int" where
  "calculate_rank db stat_name player_value =
     (let all_players = Player_objects db in
      if stat_name = ''totalShotAttempts'' then
        filter_gt_count (shot_count db) player_value (Player_objects db) + 1
      else if stat_name = ''totalPoints'' then
        count_better (\<lambda>p. or_0 (points__sum db p)) player_value all_players + 1
      else if stat_name = ''totalPasses'' then
        filter_gt_count (pass_count db) player_value (Player_objects db) + 1
      else if stat_name = ''totalPotentialAssists'' then
        filter_gt_count (assist_count db) player_value (Player_objects db) + 1
      else if stat_name = ''totalTurnovers'' then
        filter_gt_count (tov_count db) player_value (Player_objects db) + 1
      else if stat_name = ''totalPassingTurnovers'' then
        filter_gt_count (pass_tov_count db) player_value (Player_objects db) + 1
      else if stat_name = ''pickAndRollCount'' then
        count_better (\<lambda>p. count_action db p ''pickAndRoll'') player_value all_players + 1
      else if stat_name = ''isolationCount'' then
        count_better (\<lambda>p. count_action db p ''isolation'') player_value all_players + 1
      else if stat_name = ''postUpCount'' then
        count_better (\<lambda>p. count_action db p ''postUp'') player_value all_players + 1
      else if stat_name = ''offBallScreenCount'' then
        count_better (\<lambda>p. count_action db p ''offBallScreen'') player_value all_players + 1
      else 1)"

record rank_set =
  totalShotAttemptsRank :: int
  totalPointsRank :: int
  totalPassesRank :: int
  totalPotentialAssistsRank :: int
  totalTurnoversRank :: int
  totalPassingTurnoversRank :: int
  pickAndRollCountRank :: int
  isolationCountRank :: int
  postUpCountRank :: int
  offBallScreenCountRank :: int

definition get_ranks :: "database \<Rightarrow> string \<Rightarrow> summary_dict \<Rightarrow> rank_set" where
  "get_ranks db pid player_summary =
     \<lparr>totalShotAttemptsRank =
        calculate_rank db ''totalShotAttempts'' (summary_get player_summary ''totalShotAttempts'' 0),
      totalPointsRank =
        calculate_rank db ''totalPoints'' (summary_get player_summary ''totalPoints'' 0),
      totalPassesRank =
        calculate_rank db ''totalPasses'' (summary_get player_summary ''totalPasses'' 0),
      totalPotentialAssistsRank =
        calculate_rank db ''totalPotentialAssists''
          (summary_get player_summary ''totalPotentialAssists'' 0),
      totalTurnoversRank =
        calculate_rank db ''totalTurnovers'' (summary_get player_summary ''totalTurnovers'' 0),
      totalPassingTurnoversRank =
        calculate_rank db ''totalPassingTurnovers''
          (summary_get player_summary ''totalPassingTurnovers'' 0),
      pickAndRollCountRank =
        calculate_rank db ''pickAndRollCount'' (summary_get player_summary ''pickAndRollCount'' 0),
      isolationCountRank =
        calculate_rank db ''isolationCount'' (summary_get player_summary ''isolationCount'' 0),
      postUpCountRank =
        calculate_rank db ''postUpCount'' (summary_get player_summary ''postUpCount'' 0),
      offBallScreenCountRank =
        calculate_rank db ''offBallScreenCount''
          (summary_get player_summary ''offBallScreenCount'' 0)\<rparr>"

section \<open>Counting events, in the specification's words\<close>

text \<open>The four values of the action category.\<close>

definition action_types :: "string list" where
  "action_types = [''pickAndRoll'', ''isolation'', ''postUp'', ''offBallScreen'']"

text \<open>
  The number of rows of a table that satisfy a condition, counted row by row; the
  specification's counts (shots in a category, standalone turnovers of a player) are
  instances.
\<close>

definition count_rows :: "('row \<Rightarrow> bool) \<Rightarrow> 'row list \<Rightarrow> int" where
  "count_rows cond table = (\<Sum>row\<leftarrow>table. if cond row then 1 else 0)"

definition shotsInCategory :: "database \<Rightarrow> int \<Rightarrow> string \<Rightarrow> int" where
  "shotsInCategory db p a =
     count_rows (\<lambda>e. shot_player e = p \<and> shot_action_type e = a) (Shot_objects db)"

definition passesInCategory :: "database \<Rightarrow> int \<Rightarrow> string \<Rightarrow> int" where
  "passesInCategory db p a =
     count_rows (\<lambda>e. pass_player e = p \<and> pass_action_type e = a) (Pass_objects db)"

definition standaloneTurnoversInCategory :: "database \<Rightarrow> int \<Rightarrow> string \<Rightarrow> int" where
  "standaloneTurnoversInCategory db p a =
     count_rows (\<lambda>e. tov_player e = p \<and> tov_action_type e = a) (Turnover_objects db)"

definition standaloneTurnoverCount :: "database \<Rightarrow> int \<Rightarrow> int" where
  "standaloneTurnoverCount db p = count_rows (\<lambda>e. tov_player e = p) (Turnover_objects db)"

section \<open>Example databases\<close>

definition shot_row :: "int \<Rightarrow> int \<Rightarrow> int \<Rightarrow> string \<Rightarrow> Shot" where
  "shot_row i p pts a =
     \<lparr>shot_id = i, shot_player = p, shot_game = 1, shot_points = pts,
      shot_shooting_foul_drawn = False, shot_loc_x = 3, shot_loc_y = 4,
      shot_action_type = a\<rparr>"

definition pass_row :: "int \<Rightarrow> int \<Rightarrow> bool \<Rightarrow> bool \<Rightarrow> string \<Rightarrow> Pass" where
  "pass_row i p assist tov a =
     \<lparr>pass_id = i, pass_player = p, pass_game = 1, pass_completed_pass = \<not> tov,
      pass_potential_assist = assist, pass_turnover = tov,
      pass_ball_start_loc_x = 0, pass_ball_start_loc_y = 1,
      pass_ball_end_loc_x = 5, pass_ball_end_loc_y = 6, pass_action_type = a\<rparr>"

definition turnover_row :: "int \<Rightarrow> int \<Rightarrow> string \<Rightarrow> Turnover" where
  "turnover_row i p a =
     \<lparr>tov_id = i, tov_player = p, tov_game = 1, tov_loc_x = 2, tov_loc_y = 2,
      tov_action_type = a\<rparr>"

definition player_A :: Player where
  "player_A = \<lparr>player_id = 1, player_name = ''A'', player_team = 10\<rparr>"

definition player_B :: Player where
  "player_B = \<lparr>player_id = 2, player_name = ''B'', player_team = 10\<rparr>"

text \<open>
  A league of two players. Player A has two standalone turnovers and two passes, neither
  of them a turnover; player B has three standalone turnovers and no pass. Each has one
  shot.
\<close>

definition league :: database where
  "league =
     \<lparr>Player_objects = [player_A, player_B],
      Shot_objects = [shot_row 1 1 2 ''isolation'', shot_row 2 2 3 ''postUp''],
      Pass_objects =
        [pass_row 1 1 True False ''postUp'', pass_row 2 1 False False ''pickAndRoll''],
      Turnover_objects =
        [turnover_row 1 1 ''postUp'', turnover_row 2 1 ''isolation'',
         turnover_row 3 2 ''postUp'', turnover_row 4 2 ''postUp'',
         turnover_row 5 2 ''offBallScreen'']\<rparr>"

text \<open>The ten keys that \<open>get_ranks\<close> reads from the summary.\<close>

definition rank_keys :: "string list" where
  "rank_keys =
     [''totalShotAttempts'', ''totalPoints'', ''totalPasses'', ''totalPotentialAssists'',
      ''totalTurnovers'', ''totalPassingTurnovers'', ''pickAndRollCount'',
      ''isolationCount'', ''postUpCount'', ''offBallScreenCount'']"

text \<open>
  The database without the events whose \<open>action_type\<close> is none of the four values, and
  the number of a player's events that are left out, by kind.
\<close>

definition known_action :: "string \<Rightarrow> bool" where
  "known_action a = (a \<in> set action_types)"

definition known_only :: "database \<Rightarrow> database" where
  "known_only db =
     db\<lparr>Shot_objects := filter (\<lambda>e. known_action (shot_action_type e)) (Shot_objects db),
        Pass_objects := filter (\<lambda>e. known_action (pass_action_type e)) (Pass_objects db),
        Turnover_objects :=
          filter (\<lambda>e. known_action (tov_action_type e)) (Turnover_objects db)\<rparr>"

definition stray_shots :: "database \<Rightarrow> int \<Rightarrow> Shot list" where
  "stray_shots db p =
     filter (\<lambda>e. shot_player e = p \<and> \<not> known_action (shot_action_type e)) (Shot_objects db)"

definition stray_passes :: "database \<Rightarrow> int \<Rightarrow> Pass list" where
  "stray_passes db p =
     filter (\<lambda>e. pass_player e = p \<and> \<not> known_action (pass_action_type e)) (Pass_objects db)"

definition stray_turnovers :: "database \<Rightarrow> int \<Rightarrow> Turnover list" where
  "stray_turnovers db p =
     filter (\<lambda>e. tov_player e = p \<and> \<not> known_action (tov_action_type e))
       (Turnover_objects db)"

text \<open>
  The league with three more events of player A that carry an action outside the four: a
  shot worth two points, a pass that is a turnover, and a standalone turnover.
\<close>

definition league_stray :: database where
  "league_stray =
     league\<lparr>Shot_objects := Shot_objects league @ [shot_row 3 1 2 ''transition''],
            Pass_objects := Pass_objects league @ [pass_row 3 1 False True ''''],
            Turnover_objects := Turnover_objects league @ [turnover_row 6 1 ''PostUp'']\<rparr>"

text \<open>
  The example of the specification: player P with three pick-and-roll shots worth 2, 2
  and 3 points, one isolation shot worth nothing, no pass and no turnover. The other
  events belong to another player.
\<close>

definition example_db :: database where
  "example_db =
     \<lparr>Player_objects =
        [\<lparr>player_id = 7, player_name = ''P'', player_team = 10\<rparr>,
         \<lparr>player_id = 8, player_name = ''Q'', player_team = 11\<rparr>],
      Shot_objects =
        [shot_row 1 7 2 ''pickAndRoll'', shot_row 2 8 3 ''postUp'',
         shot_row 3 7 2 ''pickAndRoll'', shot_row 4 7 3 ''pickAndRoll'',
         shot_row 5 7 0 ''isolation''],
      Pass_objects = [pass_row 1 8 True False ''postUp''],
      Turnover_objects = [turnover_row 1 8 ''isolation'']\<rparr>"

text \<open>
  A result up to the order of the detail lists: every scalar as it is, every detail list
  as the multiset of its entries.
\<close>

type_synonym action_view =
  "int list \<times> shot_entry multiset \<times> pass_entry multiset \<times> located multiset"

definition scalar_totals :: "'a totals_scheme \<Rightarrow> int list" where
  "scalar_totals r =
     [totalShotAttempts r, totalPoints r, totalPasses r, totalPotentialAssists r,
      totalTurnovers r, totalPassingTurnovers r]"

definition action_view_of :: "action_stats \<Rightarrow> action_view" where
  "action_view_of b = (scalar_totals b, mset (shots b), mset (passes b), mset (turnovers b))"

definition summary_view ::
  "player_summary \<Rightarrow> string \<times> int \<times> int list \<times> int list \<times> action_view list" where
  "summary_view s =
     (name s, playerID s, scalar_totals s,
      [pickAndRollCount s, isolationCount s, postUpCount s, offBallScreenCount s],
      [action_view_of (pickAndRoll s), action_view_of (isolation s),
       action_view_of (postUp s), action_view_of (offBallScreen s)])"

definition result_view ::
  "exn + summary_dict
   \<Rightarrow> exn + string + string \<times> int \<times> int list \<times> int list \<times> action_view list" where
  "result_view r =
     (case r of
        Inl e \<Rightarrow> Inl e
      | Inr (ErrorDict msg) \<Rightarrow> Inr (Inl msg)
      | Inr (Summary s) \<Rightarrow> Inr (Inr (summary_view s)))"

text \<open>The league, with every table returned in the opposite order.\<close>

definition league_reversed :: database where
  "league_reversed =
     \<lparr>Player_objects = rev (Player_objects league),
      Shot_objects = rev (Shot_objects league),
      Pass_objects = rev (Pass_objects league),
      Turnover_objects = rev (Turnover_objects league)\<rparr>"

section \<open>Basic facts\<close>

lemma find_player_id: "find (\<lambda>p. player_id p = n) ps = Some player \<Longrightarrow> player_id player = n"
  by (induction ps) (auto split: if_splits)

lemma summary_resultD:
  assumes "get_player_summary_stats db pid = Inr (Summary s)"
  shows "\<exists>n player. py_int pid = Some n \<and> Player_objects_get db n = Some player
           \<and> player_id player = n \<and> s = summary_of db player"
  using assms
  by (auto simp: get_player_summary_stats_def Player_objects_get_def
        split: option.splits dest: find_player_id)

lemma count_rows_filter: "count_rows cond table = int (length (filter cond table))"
  unfolding count_rows_def by (induction table) simp_all

lemma filter_player_action_shot:
  "filter (\<lambda>s. shot_action_type s = a) (Shot_filter_player db p)
     = filter (\<lambda>s. shot_player s = player_id p \<and> shot_action_type s = a) (Shot_objects db)"
  by (simp add: Shot_filter_player_def conj_commute)

lemma filter_player_action_pass:
  "filter (\<lambda>s. pass_action_type s = a) (Pass_filter_player db p)
     = filter (\<lambda>s. pass_player s = player_id p \<and> pass_action_type s = a) (Pass_objects db)"
  by (simp add: Pass_filter_player_def conj_commute)

lemma filter_player_action_tov:
  "filter (\<lambda>s. tov_action_type s = a) (Turnover_filter_player db p)
     = filter (\<lambda>s. tov_player s = player_id p \<and> tov_action_type s = a) (Turnover_objects db)"
  by (simp add: Turnover_filter_player_def conj_commute)

lemma summary_of_totals:
  "totalShotAttempts (summary_of db p) = int (length (Shot_filter_player db p))"
  "totalPoints (summary_of db p) = sum_list (map shot_points (Shot_filter_player db p))"
  "totalPasses (summary_of db p) = int (length (Pass_filter_player db p))"
  "totalPotentialAssists (summary_of db p)
     = int (length (filter pass_potential_assist (Pass_filter_player db p)))"
  "totalTurnovers (summary_of db p)
     = int (length (Turnover_filter_player db p))
       + int (length (filter pass_turnover (Pass_filter_player db p)))"
  "totalPassingTurnovers (summary_of db p)
     = int (length (filter pass_turnover (Pass_filter_player db p)))"
  "name (summary_of db p) = player_name p"
  "playerID (summary_of db p) = player_id p"
  by (simp_all add: summary_of_def Let_def)

lemma summary_of_counts:
  "pickAndRollCount (summary_of db p)
     = action_count (Shot_filter_player db p) (Pass_filter_player db p)
         (Turnover_filter_player db p) ''pickAndRoll''"
  "isolationCount (summary_of db p)
     = action_count (Shot_filter_player db p) (Pass_filter_player db p)
         (Turnover_filter_player db p) ''isolation''"
  "postUpCount (summary_of db p)
     = action_count (Shot_filter_player db p) (Pass_filter_player db p)
         (Turnover_filter_player db p) ''postUp''"
  "offBallScreenCount (summary_of db p)
     = action_count (Shot_filter_player db p) (Pass_filter_player db p)
         (Turnover_filter_player db p) ''offBallScreen''"
  by (simp_all add: summary_of_def Let_def)

lemma summary_of_actions:
  "pickAndRoll (summary_of db p)
     = get_action_stats (Shot_filter_player db p) (Pass_filter_player db p)
         (Turnover_filter_player db p) ''pickAndRoll''"
  "isolation (summary_of db p)
     = get_action_stats (Shot_filter_player db p) (Pass_filter_player db p)
         (Turnover_filter_player db p) ''isolation''"
  "postUp (summary_of db p)
     = get_action_stats (Shot_filter_player db p) (Pass_filter_player db p)
         (Turnover_filter_player db p) ''postUp''"
  "offBallScreen (summary_of db p)
     = get_action_stats (Shot_filter_player db p) (Pass_filter_player db p)
         (Turnover_filter_player db p) ''offBallScreen''"
  by (simp_all add: summary_of_def Let_def)

lemma get_action_stats_fields:
  "totalShotAttempts (get_action_stats ss ps ts a)
     = int (length (filter (\<lambda>s. shot_action_type s = a) ss))"
  "totalPoints (get_action_stats ss ps ts a)
     = sum_list (map shot_points (filter (\<lambda>s. shot_action_type s = a) ss))"
  "totalPasses (get_action_stats ss ps ts a)
     = int (length (filter (\<lambda>p. pass_action_type p = a) ps))"
  "totalPotentialAssists (get_action_stats ss ps ts a)
     = int (length (filter pass_potential_assist (filter (\<lambda>p. pass_action_type p = a) ps)))"
  "totalTurnovers (get_action_stats ss ps ts a)
     = int (length (filter (\<lambda>t. tov_action_type t = a) ts))
       + int (length (filter pass_turnover (filter (\<lambda>p. pass_action_type p = a) ps)))"
  "totalPassingTurnovers (get_action_stats ss ps ts a)
     = int (length (filter pass_turnover (filter (\<lambda>p. pass_action_type p = a) ps)))"
  "shots (get_action_stats ss ps ts a) = shots_data (filter (\<lambda>s. shot_action_type s = a) ss)"
  "passes (get_action_stats ss ps ts a) = passes_data (filter (\<lambda>p. pass_action_type p = a) ps)"
  "turnovers (get_action_stats ss ps ts a)
     = turnovers_data (filter (\<lambda>t. tov_action_type t = a) ts)"
  by (simp_all add: get_action_stats_def Let_def)

text \<open>Evaluating the example league.\<close>

lemmas row_defs = shot_row_def pass_row_def turnover_row_def player_A_def player_B_def

lemma league_tables:
  "Shot_filter_player league player_A = [shot_row 1 1 2 ''isolation'']"
  "Shot_filter_player league player_B = [shot_row 2 2 3 ''postUp'']"
  "Pass_filter_player league player_A
     = [pass_row 1 1 True False ''postUp'', pass_row 2 1 False False ''pickAndRoll'']"
  "Pass_filter_player league player_B = []"
  "Turnover_filter_player league player_A
     = [turnover_row 1 1 ''postUp'', turnover_row 2 1 ''isolation'']"
  "Turnover_filter_player league player_B
     = [turnover_row 3 2 ''postUp'', turnover_row 4 2 ''postUp'',
        turnover_row 5 2 ''offBallScreen'']"
  by (simp_all add: league_def Shot_filter_player_def Pass_filter_player_def
        Turnover_filter_player_def row_defs)

lemma league_summary_A:
  "get_player_summary_stats league ''1'' = Inr (Summary (summary_of league player_A))"
  by (simp add: get_player_summary_stats_def py_int_def py_literal_def default_max_str_digits_def py_strip_def py_isspace_def
        py_isdigit_def digit_value_def Player_objects_get_def league_def row_defs)

lemma league_summary_B:
  "get_player_summary_stats league ''2'' = Inr (Summary (summary_of league player_B))"
  by (simp add: get_player_summary_stats_def py_int_def py_literal_def default_max_str_digits_def py_strip_def py_isspace_def
        py_isdigit_def digit_value_def Player_objects_get_def league_def row_defs)

section \<open>Turnovers\<close>

text \<open>
  Claim C3. In every summary that \<open>get_player_summary_stats\<close> returns, the total of
  turnovers is the total of passing turnovers plus the number of the player's standalone
  turnover rows, overall and inside each of the four per-action dictionaries.
\<close>

theorem turnovers_split:
  assumes "get_player_summary_stats db pid = Inr (Summary s)"
  shows "totalTurnovers s = totalPassingTurnovers s + standaloneTurnoverCount db (playerID s)
       \<and> totalTurnovers (pickAndRoll s)
           = totalPassingTurnovers (pickAndRoll s)
             + standaloneTurnoversInCategory db (playerID s) ''pickAndRoll''
       \<and> totalTurnovers (isolation s)
           = totalPassingTurnovers (isolation s)
             + standaloneTurnoversInCategory db (playerID s) ''isolation''
       \<and> totalTurnovers (postUp s)
           = totalPassingTurnovers (postUp s)
             + standaloneTurnoversInCategory db (playerID s) ''postUp''
       \<and> totalTurnovers (offBallScreen s)
           = totalPassingTurnovers (offBallScreen s)
             + standaloneTurnoversInCategory db (playerID s) ''offBallScreen''"
proof -
  from summary_resultD [OF assms] obtain player where s: "s = summary_of db player"
    by blast
  have overall: "totalTurnovers s
      = totalPassingTurnovers s + standaloneTurnoverCount db (playerID s)"
    unfolding s
    by (simp add: summary_of_totals standaloneTurnoverCount_def count_rows_filter
          Turnover_filter_player_def)
  have per_action: "totalTurnovers (get_action_stats (Shot_filter_player db player)
          (Pass_filter_player db player) (Turnover_filter_player db player) a)
      = totalPassingTurnovers (get_action_stats (Shot_filter_player db player)
          (Pass_filter_player db player) (Turnover_filter_player db player) a)
        + standaloneTurnoversInCategory db (player_id player) a" for a
    by (simp add: get_action_stats_fields standaloneTurnoversInCategory_def
          count_rows_filter filter_player_action_tov)
  show ?thesis
    using overall per_action unfolding s
    by (simp add: summary_of_actions summary_of_totals)
qed

theorem turnovers_split_witness:
  "get_player_summary_stats league ''1'' = Inr (Summary (summary_of league player_A))
   \<and> totalTurnovers (summary_of league player_A) = 0 + 2
   \<and> totalTurnovers (postUp (summary_of league player_A)) = 0 + 1
   \<and> totalTurnovers (isolation (summary_of league player_A)) = 0 + 1"
proof -
  have counts: "standaloneTurnoverCount league 1 = 2"
    "standaloneTurnoversInCategory league 1 ''postUp'' = 1"
    "standaloneTurnoversInCategory league 1 ''isolation'' = 1"
    by (simp_all add: standaloneTurnoverCount_def standaloneTurnoversInCategory_def
          count_rows_def league_def row_defs)
  have passing: "totalPassingTurnovers (summary_of league player_A) = 0"
    "totalPassingTurnovers (postUp (summary_of league player_A)) = 0"
    "totalPassingTurnovers (isolation (summary_of league player_A)) = 0"
    by (simp_all add: summary_of_totals summary_of_actions get_action_stats_fields
          league_tables) (simp_all add: row_defs)
  have pid: "playerID (summary_of league player_A) = 1"
    by (simp add: summary_of_totals player_A_def)
  show ?thesis
    using turnovers_split [OF league_summary_A] league_summary_A counts passing pid
    by simp
qed

section \<open>Action counts and detail lists\<close>

lemma action_count_player:
  "action_count (Shot_filter_player db p) (Pass_filter_player db p)
     (Turnover_filter_player db p) a
   = shotsInCategory db (player_id p) a + passesInCategory db (player_id p) a
     + standaloneTurnoversInCategory db (player_id p) a"
  by (simp add: action_count_def shotsInCategory_def passesInCategory_def
        standaloneTurnoversInCategory_def count_rows_filter filter_player_action_shot
        filter_player_action_pass filter_player_action_tov)

text \<open>
  Claim C5. Each of the four action counts of a summary is the number of the player's
  shots in the category plus the number of passes in the category plus the number of
  standalone turnovers in the category.
\<close>

theorem action_count_is_event_volume:
  assumes "get_player_summary_stats db pid = Inr (Summary s)"
  shows "pickAndRollCount s
           = shotsInCategory db (playerID s) ''pickAndRoll''
             + passesInCategory db (playerID s) ''pickAndRoll''
             + standaloneTurnoversInCategory db (playerID s) ''pickAndRoll''
       \<and> isolationCount s
           = shotsInCategory db (playerID s) ''isolation''
             + passesInCategory db (playerID s) ''isolation''
             + standaloneTurnoversInCategory db (playerID s) ''isolation''
       \<and> postUpCount s
           = shotsInCategory db (playerID s) ''postUp''
             + passesInCategory db (playerID s) ''postUp''
             + standaloneTurnoversInCategory db (playerID s) ''postUp''
       \<and> offBallScreenCount s
           = shotsInCategory db (playerID s) ''offBallScreen''
             + passesInCategory db (playerID s) ''offBallScreen''
             + standaloneTurnoversInCategory db (playerID s) ''offBallScreen''"
proof -
  from summary_resultD [OF assms] obtain player where s: "s = summary_of db player"
    by blast
  show ?thesis
    unfolding s by (simp add: summary_of_counts summary_of_totals action_count_player)
qed

theorem action_count_is_event_volume_witness:
  "get_player_summary_stats league ''1'' = Inr (Summary (summary_of league player_A))
   \<and> pickAndRollCount (summary_of league player_A) = 0 + 1 + 0
   \<and> isolationCount (summary_of league player_A) = 1 + 0 + 1
   \<and> postUpCount (summary_of league player_A) = 0 + 1 + 1
   \<and> offBallScreenCount (summary_of league player_A) = 0 + 0 + 0"
proof -
  have shots_in: "shotsInCategory league 1 ''pickAndRoll'' = 0"
    "shotsInCategory league 1 ''isolation'' = 1"
    "shotsInCategory league 1 ''postUp'' = 0"
    "shotsInCategory league 1 ''offBallScreen'' = 0"
    by (simp_all add: shotsInCategory_def count_rows_def league_def row_defs)
  have passes_in: "passesInCategory league 1 ''pickAndRoll'' = 1"
    "passesInCategory league 1 ''isolation'' = 0"
    "passesInCategory league 1 ''postUp'' = 1"
    "passesInCategory league 1 ''offBallScreen'' = 0"
    by (simp_all add: passesInCategory_def count_rows_def league_def row_defs)
  have tovs_in: "standaloneTurnoversInCategory league 1 ''pickAndRoll'' = 0"
    "standaloneTurnoversInCategory league 1 ''isolation'' = 1"
    "standaloneTurnoversInCategory league 1 ''postUp'' = 1"
    "standaloneTurnoversInCategory league 1 ''offBallScreen'' = 0"
    by (simp_all add: standaloneTurnoversInCategory_def count_rows_def league_def row_defs)
  have pid: "playerID (summary_of league player_A) = 1"
    by (simp add: summary_of_totals player_A_def)
  show ?thesis
    using action_count_is_event_volume [OF league_summary_A] league_summary_A
      shots_in passes_in tovs_in pid
    by simp
qed

lemma get_action_stats_lengths:
  "int (length (shots (get_action_stats ss ps ts a)))
     = totalShotAttempts (get_action_stats ss ps ts a)"
  "int (length (passes (get_action_stats ss ps ts a)))
     = totalPasses (get_action_stats ss ps ts a)"
  "int (length (turnovers (get_action_stats ss ps ts a)))
     = totalTurnovers (get_action_stats ss ps ts a)
       - totalPassingTurnovers (get_action_stats ss ps ts a)"
  by (simp_all add: get_action_stats_fields shots_data_def passes_data_def
        turnovers_data_def)

text \<open>
  Claim C10. In each of the four per-action dictionaries of a summary, the list of shots
  has \<open>totalShotAttempts\<close> entries, the list of passes has \<open>totalPasses\<close> entries, and the
  list of turnovers has \<open>totalTurnovers - totalPassingTurnovers\<close> entries.
\<close>

theorem detail_lists_match_totals:
  assumes "get_player_summary_stats db pid = Inr (Summary s)"
    and "b \<in> {pickAndRoll s, isolation s, postUp s, offBallScreen s}"
  shows "int (length (shots b)) = totalShotAttempts b
       \<and> int (length (passes b)) = totalPasses b
       \<and> int (length (turnovers b)) = totalTurnovers b - totalPassingTurnovers b"
proof -
  from summary_resultD [OF assms(1)] obtain player where s: "s = summary_of db player"
    by blast
  from assms(2) obtain a where
    "b = get_action_stats (Shot_filter_player db player) (Pass_filter_player db player)
           (Turnover_filter_player db player) a"
    unfolding s by (auto simp: summary_of_actions)
  then show ?thesis
    by (simp add: get_action_stats_lengths)
qed

theorem detail_lists_match_totals_witness:
  "get_player_summary_stats league ''1'' = Inr (Summary (summary_of league player_A))
   \<and> length (shots (postUp (summary_of league player_A))) = 0
   \<and> totalShotAttempts (postUp (summary_of league player_A)) = 0
   \<and> length (passes (postUp (summary_of league player_A))) = 1
   \<and> totalPasses (postUp (summary_of league player_A)) = 1
   \<and> length (turnovers (postUp (summary_of league player_A))) = 1
   \<and> totalTurnovers (postUp (summary_of league player_A))
       - totalPassingTurnovers (postUp (summary_of league player_A)) = 1"
proof -
  have lens: "length (shots (postUp (summary_of league player_A))) = 0"
    "length (passes (postUp (summary_of league player_A))) = 1"
    "length (turnovers (postUp (summary_of league player_A))) = 1"
    by (simp_all add: summary_of_actions get_action_stats_fields league_tables
          shots_data_def passes_data_def turnovers_data_def)
       (simp_all add: row_defs)
  have mem: "postUp (summary_of league player_A)
      \<in> {pickAndRoll (summary_of league player_A), isolation (summary_of league player_A),
         postUp (summary_of league player_A), offBallScreen (summary_of league player_A)}"
    by simp
  show ?thesis
    using detail_lists_match_totals [OF league_summary_A mem] league_summary_A lens
    by simp
qed

section \<open>What \<open>get_ranks\<close> reads\<close>

text \<open>
  Claim C9. The ranks do not depend on the \<open>player_id\<close> argument: the ten target values
  are read from the summary alone, with 0 for a key that is absent, so two calls on the
  same database whose summaries give the same ten values return the same ranks, whatever
  the two player ids are.
\<close>

theorem ranks_ignore_player_id:
  assumes "\<forall>key \<in> set rank_keys. summary_get d1 key 0 = summary_get d2 key 0"
  shows "get_ranks db pid1 d1 = get_ranks db pid2 d2"
  using assms by (simp add: get_ranks_def rank_keys_def)

theorem ranks_ignore_player_id_witness:
  "summary_get (ErrorDict ''Player with ID 3 not found'') ''totalPoints'' 0
     = summary_get
         (Summary (summary_of league \<lparr>player_id = 3, player_name = ''C'', player_team = 10\<rparr>))
         ''totalPoints'' 0
   \<and> get_ranks league ''3'' (ErrorDict ''Player with ID 3 not found'')
     = get_ranks league ''not a number''
         (Summary (summary_of league \<lparr>player_id = 3, player_name = ''C'', player_team = 10\<rparr>))"
proof -
  have none:
    "Shot_filter_player league \<lparr>player_id = 3, player_name = ''C'', player_team = 10\<rparr> = []"
    "Pass_filter_player league \<lparr>player_id = 3, player_name = ''C'', player_team = 10\<rparr> = []"
    "Turnover_filter_player league \<lparr>player_id = 3, player_name = ''C'', player_team = 10\<rparr>
       = []"
    by (simp_all add: league_def Shot_filter_player_def Pass_filter_player_def
          Turnover_filter_player_def row_defs)
  have same: "\<forall>key \<in> set rank_keys.
      summary_get (ErrorDict ''Player with ID 3 not found'') key 0
      = summary_get
          (Summary (summary_of league \<lparr>player_id = 3, player_name = ''C'', player_team = 10\<rparr>))
          key 0"
    by (simp add: rank_keys_def summary_get_def summary_of_totals summary_of_counts
          action_count_def none)
  from ranks_ignore_player_id [OF same] same show ?thesis
    by (simp add: rank_keys_def)
qed

section \<open>Events with an action outside the four\<close>

lemma sum_list_split:
  fixes g :: "'a \<Rightarrow> int"
  shows "(\<Sum>x\<leftarrow>xs. g x) = (\<Sum>x\<leftarrow>filter K xs. g x) + (\<Sum>x\<leftarrow>filter (\<lambda>x. \<not> K x) xs. g x)"
  by (induction xs) simp_all

lemma length_split:
  "int (length xs) = int (length (filter K xs)) + int (length (filter (\<lambda>x. \<not> K x) xs))"
  by (induction xs) simp_all

lemma filter_known_action:
  assumes "known_action a"
  shows "filter (\<lambda>x. f x = a) (filter (\<lambda>x. known_action (f x)) xs) = filter (\<lambda>x. f x = a) xs"
  using assms by (induction xs) auto

lemma known_only_tables:
  "Player_objects (known_only db) = Player_objects db"
  "Shot_filter_player (known_only db) p
     = filter (\<lambda>e. known_action (shot_action_type e)) (Shot_filter_player db p)"
  "Pass_filter_player (known_only db) p
     = filter (\<lambda>e. known_action (pass_action_type e)) (Pass_filter_player db p)"
  "Turnover_filter_player (known_only db) p
     = filter (\<lambda>e. known_action (tov_action_type e)) (Turnover_filter_player db p)"
  by (auto simp: known_only_def Shot_filter_player_def Pass_filter_player_def
        Turnover_filter_player_def intro: filter_cong)

lemma stray_tables:
  "stray_shots db (player_id p)
     = filter (\<lambda>e. \<not> known_action (shot_action_type e)) (Shot_filter_player db p)"
  "stray_passes db (player_id p)
     = filter (\<lambda>e. \<not> known_action (pass_action_type e)) (Pass_filter_player db p)"
  "stray_turnovers db (player_id p)
     = filter (\<lambda>e. \<not> known_action (tov_action_type e)) (Turnover_filter_player db p)"
  by (auto simp: stray_shots_def stray_passes_def stray_turnovers_def
        Shot_filter_player_def Pass_filter_player_def Turnover_filter_player_def
        intro: filter_cong)

lemma known_action_types:
  "known_action ''pickAndRoll''" "known_action ''isolation''"
  "known_action ''postUp''" "known_action ''offBallScreen''"
  by (simp_all add: known_action_def action_types_def)

lemma get_action_stats_known_only:
  assumes "known_action a"
  shows "get_action_stats (Shot_filter_player (known_only db) p)
           (Pass_filter_player (known_only db) p) (Turnover_filter_player (known_only db) p) a
         = get_action_stats (Shot_filter_player db p) (Pass_filter_player db p)
             (Turnover_filter_player db p) a"
  by (simp add: get_action_stats_def known_only_tables filter_known_action [OF assms]
        del: filter_filter)

lemma action_count_known_only:
  assumes "known_action a"
  shows "action_count (Shot_filter_player (known_only db) p)
           (Pass_filter_player (known_only db) p) (Turnover_filter_player (known_only db) p) a
         = action_count (Shot_filter_player db p) (Pass_filter_player db p)
             (Turnover_filter_player db p) a"
  by (simp add: action_count_def known_only_tables filter_known_action [OF assms]
        del: filter_filter)

lemma length_filter_split:
  "int (length (filter P xs))
     = int (length (filter P (filter K xs))) + int (length (filter P (filter (\<lambda>x. \<not> K x) xs)))"
  by (induction xs) simp_all

lemma totals_known_only:
  "totalShotAttempts (summary_of db p)
     = totalShotAttempts (summary_of (known_only db) p)
       + int (length (stray_shots db (player_id p)))"
  "totalPoints (summary_of db p)
     = totalPoints (summary_of (known_only db) p)
       + sum_list (map shot_points (stray_shots db (player_id p)))"
  "totalPasses (summary_of db p)
     = totalPasses (summary_of (known_only db) p)
       + int (length (stray_passes db (player_id p)))"
  "totalPotentialAssists (summary_of db p)
     = totalPotentialAssists (summary_of (known_only db) p)
       + int (length (filter pass_potential_assist (stray_passes db (player_id p))))"
  "totalPassingTurnovers (summary_of db p)
     = totalPassingTurnovers (summary_of (known_only db) p)
       + int (length (filter pass_turnover (stray_passes db (player_id p))))"
  "totalTurnovers (summary_of db p)
     = totalTurnovers (summary_of (known_only db) p)
       + int (length (stray_turnovers db (player_id p)))
       + int (length (filter pass_turnover (stray_passes db (player_id p))))"
proof -
  show "totalShotAttempts (summary_of db p)
     = totalShotAttempts (summary_of (known_only db) p)
       + int (length (stray_shots db (player_id p)))"
    using length_split [of "Shot_filter_player db p" "\<lambda>e. known_action (shot_action_type e)"]
    by (simp add: summary_of_totals known_only_tables stray_tables)
  show "totalPoints (summary_of db p)
     = totalPoints (summary_of (known_only db) p)
       + sum_list (map shot_points (stray_shots db (player_id p)))"
    using sum_list_split [of shot_points "Shot_filter_player db p"
        "\<lambda>e. known_action (shot_action_type e)"]
    by (simp add: summary_of_totals known_only_tables stray_tables)
  show "totalPasses (summary_of db p)
     = totalPasses (summary_of (known_only db) p)
       + int (length (stray_passes db (player_id p)))"
    using length_split [of "Pass_filter_player db p" "\<lambda>e. known_action (pass_action_type e)"]
    by (simp add: summary_of_totals known_only_tables stray_tables)
  show "totalPotentialAssists (summary_of db p)
     = totalPotentialAssists (summary_of (known_only db) p)
       + int (length (filter pass_potential_assist (stray_passes db (player_id p))))"
    using length_filter_split [of pass_potential_assist "Pass_filter_player db p"
        "\<lambda>e. known_action (pass_action_type e)"]
    by (simp add: summary_of_totals known_only_tables stray_tables del: filter_filter)
  show pt: "totalPassingTurnovers (summary_of db p)
     = totalPassingTurnovers (summary_of (known_only db) p)
       + int (length (filter pass_turnover (stray_passes db (player_id p))))"
    using length_filter_split [of pass_turnover "Pass_filter_player db p"
        "\<lambda>e. known_action (pass_action_type e)"]
    by (simp add: summary_of_totals known_only_tables stray_tables del: filter_filter)
  show "totalTurnovers (summary_of db p)
     = totalTurnovers (summary_of (known_only db) p)
       + int (length (stray_turnovers db (player_id p)))
       + int (length (filter pass_turnover (stray_passes db (player_id p))))"
    using length_split [of "Turnover_filter_player db p"
        "\<lambda>e. known_action (tov_action_type e)"] pt
    by (simp add: summary_of_totals known_only_tables stray_tables del: filter_filter)
qed

lemma summary_known_only:
  "get_player_summary_stats (known_only db) pid = Inr (Summary s0)
   \<longleftrightarrow> (\<exists>n player. py_int pid = Some n \<and> Player_objects_get db n = Some player
         \<and> s0 = summary_of (known_only db) player)"
  by (auto simp: get_player_summary_stats_def Player_objects_get_def known_only_tables
        split: option.splits)

text \<open>
  Claim C4. Events whose \<open>action_type\<close> is none of the four values are never rejected:
  whenever the function returns a summary on the database without them, it returns a
  summary with them. That summary has the same four per-action dictionaries and the same
  four action counts, and each overall total grows by what the events outside the four
  contribute.
\<close>

theorem unknown_action_counts_only_overall:
  assumes "get_player_summary_stats (known_only db) pid = Inr (Summary s0)"
  shows "\<exists>s. get_player_summary_stats db pid = Inr (Summary s)
          \<and> pickAndRoll s = pickAndRoll s0 \<and> isolation s = isolation s0
          \<and> postUp s = postUp s0 \<and> offBallScreen s = offBallScreen s0
          \<and> pickAndRollCount s = pickAndRollCount s0 \<and> isolationCount s = isolationCount s0
          \<and> postUpCount s = postUpCount s0 \<and> offBallScreenCount s = offBallScreenCount s0
          \<and> totalShotAttempts s
              = totalShotAttempts s0 + int (length (stray_shots db (playerID s0)))
          \<and> totalPoints s
              = totalPoints s0 + sum_list (map shot_points (stray_shots db (playerID s0)))
          \<and> totalPasses s = totalPasses s0 + int (length (stray_passes db (playerID s0)))
          \<and> totalPotentialAssists s
              = totalPotentialAssists s0
                + int (length (filter pass_potential_assist (stray_passes db (playerID s0))))
          \<and> totalPassingTurnovers s
              = totalPassingTurnovers s0
                + int (length (filter pass_turnover (stray_passes db (playerID s0))))
          \<and> totalTurnovers s
              = totalTurnovers s0 + int (length (stray_turnovers db (playerID s0)))
                + int (length (filter pass_turnover (stray_passes db (playerID s0))))"
proof -
  from assms obtain n player where n: "py_int pid = Some n"
    and player: "Player_objects_get db n = Some player"
    and s0: "s0 = summary_of (known_only db) player"
    unfolding summary_known_only by blast
  have res: "get_player_summary_stats db pid = Inr (Summary (summary_of db player))"
    by (simp add: get_player_summary_stats_def n player)
  have id: "playerID (summary_of (known_only db) player) = player_id player"
    by (simp add: summary_of_totals)
  have same: "pickAndRoll (summary_of db player) = pickAndRoll s0"
    "isolation (summary_of db player) = isolation s0"
    "postUp (summary_of db player) = postUp s0"
    "offBallScreen (summary_of db player) = offBallScreen s0"
    "pickAndRollCount (summary_of db player) = pickAndRollCount s0"
    "isolationCount (summary_of db player) = isolationCount s0"
    "postUpCount (summary_of db player) = postUpCount s0"
    "offBallScreenCount (summary_of db player) = offBallScreenCount s0"
    unfolding s0
    by (simp_all add: summary_of_actions summary_of_counts known_action_types
          get_action_stats_known_only action_count_known_only)
  show ?thesis
    using res same totals_known_only [of db player] unfolding s0 by (simp add: id)
qed

lemma league_stray_summary_A:
  "get_player_summary_stats league_stray ''1''
     = Inr (Summary (summary_of league_stray player_A))"
  by (simp add: get_player_summary_stats_def py_int_def py_literal_def default_max_str_digits_def py_strip_def py_isspace_def
        py_isdigit_def digit_value_def Player_objects_get_def league_stray_def league_def
        row_defs)

lemma league_stray_known_summary_A:
  "get_player_summary_stats (known_only league_stray) ''1''
     = Inr (Summary (summary_of (known_only league_stray) player_A))"
  by (simp add: get_player_summary_stats_def py_int_def py_literal_def default_max_str_digits_def py_strip_def py_isspace_def
        py_isdigit_def digit_value_def Player_objects_get_def known_only_def
        league_stray_def league_def row_defs)

lemma league_stray_tables:
  "Shot_filter_player league_stray player_A
     = [shot_row 1 1 2 ''isolation'', shot_row 3 1 2 ''transition'']"
  "Pass_filter_player league_stray player_A
     = [pass_row 1 1 True False ''postUp'', pass_row 2 1 False False ''pickAndRoll'',
        pass_row 3 1 False True '''']"
  "Turnover_filter_player league_stray player_A
     = [turnover_row 1 1 ''postUp'', turnover_row 2 1 ''isolation'',
        turnover_row 6 1 ''PostUp'']"
  by (simp_all add: league_stray_def league_def Shot_filter_player_def
        Pass_filter_player_def Turnover_filter_player_def row_defs)

lemma league_stray_strays:
  "stray_shots league_stray 1 = [shot_row 3 1 2 ''transition'']"
  "stray_passes league_stray 1 = [pass_row 3 1 False True '''']"
  "stray_turnovers league_stray 1 = [turnover_row 6 1 ''PostUp'']"
  by (simp_all add: stray_shots_def stray_passes_def stray_turnovers_def league_stray_def
        league_def known_action_def action_types_def row_defs)

theorem unknown_action_counts_only_overall_witness:
  "get_player_summary_stats (known_only league_stray) ''1''
     = Inr (Summary (summary_of (known_only league_stray) player_A))
   \<and> get_player_summary_stats league_stray ''1''
     = Inr (Summary (summary_of league_stray player_A))
   \<and> postUp (summary_of league_stray player_A)
     = postUp (summary_of (known_only league_stray) player_A)
   \<and> postUpCount (summary_of league_stray player_A)
     = postUpCount (summary_of (known_only league_stray) player_A)
   \<and> totalShotAttempts (summary_of league_stray player_A)
     = totalShotAttempts (summary_of (known_only league_stray) player_A) + 1
   \<and> totalPoints (summary_of league_stray player_A)
     = totalPoints (summary_of (known_only league_stray) player_A) + 2
   \<and> totalPasses (summary_of league_stray player_A)
     = totalPasses (summary_of (known_only league_stray) player_A) + 1
   \<and> totalTurnovers (summary_of league_stray player_A)
     = totalTurnovers (summary_of (known_only league_stray) player_A) + 1 + 1"
proof -
  have id: "playerID (summary_of (known_only league_stray) player_A) = 1"
    by (simp add: summary_of_totals player_A_def)
  have lens: "length (stray_shots league_stray 1) = 1"
    "sum_list (map shot_points (stray_shots league_stray 1)) = 2"
    "length (stray_passes league_stray 1) = 1"
    "length (stray_turnovers league_stray 1) = 1"
    "length (filter pass_turnover (stray_passes league_stray 1)) = 1"
    by (simp_all add: league_stray_strays) (simp_all add: row_defs)
  from unknown_action_counts_only_overall [OF league_stray_known_summary_A]
  show ?thesis
    using league_stray_known_summary_A
    by (auto simp: league_stray_summary_A id lens)
qed

section \<open>Overall totals and the four per-action totals\<close>

lemma sum_list_by_action:
  fixes g :: "'a \<Rightarrow> int"
  shows "(\<Sum>x\<leftarrow>xs. g x)
     = (\<Sum>x\<leftarrow>filter (\<lambda>x. f x = ''pickAndRoll'') xs. g x)
       + (\<Sum>x\<leftarrow>filter (\<lambda>x. f x = ''isolation'') xs. g x)
       + (\<Sum>x\<leftarrow>filter (\<lambda>x. f x = ''postUp'') xs. g x)
       + (\<Sum>x\<leftarrow>filter (\<lambda>x. f x = ''offBallScreen'') xs. g x)
       + (\<Sum>x\<leftarrow>filter (\<lambda>x. \<not> known_action (f x)) xs. g x)"
  by (induction xs) (auto simp: known_action_def action_types_def)

lemma length_filter_by_action:
  "int (length (filter P xs))
     = int (length (filter P (filter (\<lambda>x. f x = ''pickAndRoll'') xs)))
       + int (length (filter P (filter (\<lambda>x. f x = ''isolation'') xs)))
       + int (length (filter P (filter (\<lambda>x. f x = ''postUp'') xs)))
       + int (length (filter P (filter (\<lambda>x. f x = ''offBallScreen'') xs)))
       + int (length (filter P (filter (\<lambda>x. \<not> known_action (f x)) xs)))"
  by (induction xs) (auto simp: known_action_def action_types_def)

lemma length_by_action:
  "int (length xs)
     = int (length (filter (\<lambda>x. f x = ''pickAndRoll'') xs))
       + int (length (filter (\<lambda>x. f x = ''isolation'') xs))
       + int (length (filter (\<lambda>x. f x = ''postUp'') xs))
       + int (length (filter (\<lambda>x. f x = ''offBallScreen'') xs))
       + int (length (filter (\<lambda>x. \<not> known_action (f x)) xs))"
  by (induction xs) (auto simp: known_action_def action_types_def)

text \<open>
  Claim C2, as stated, fails: a shot whose action is none of the four counts in the
  overall \<open>totalShotAttempts\<close> and in no per-action dictionary.
\<close>

theorem totals_sum_counterexample:
  "get_player_summary_stats league_stray ''1''
     = Inr (Summary (summary_of league_stray player_A))
   \<and> totalShotAttempts (summary_of league_stray player_A) = 2
   \<and> totalShotAttempts (pickAndRoll (summary_of league_stray player_A))
     + totalShotAttempts (isolation (summary_of league_stray player_A))
     + totalShotAttempts (postUp (summary_of league_stray player_A))
     + totalShotAttempts (offBallScreen (summary_of league_stray player_A)) = 1"
  by (simp add: league_stray_summary_A summary_of_totals summary_of_actions
        get_action_stats_fields league_stray_tables)
     (simp add: row_defs)

text \<open>
  Claim C2, amended. When every shot and every pass of the player carries one of the
  four actions, each of \<open>totalShotAttempts\<close>, \<open>totalPoints\<close>, \<open>totalPasses\<close>,
  \<open>totalPotentialAssists\<close> and \<open>totalPassingTurnovers\<close> of the summary is the sum of the
  same total over the four per-action dictionaries.
\<close>

theorem totals_sum_over_actions:
  assumes "get_player_summary_stats db pid = Inr (Summary s)"
    and "stray_shots db (playerID s) = []"
    and "stray_passes db (playerID s) = []"
  shows "totalShotAttempts s
           = totalShotAttempts (pickAndRoll s) + totalShotAttempts (isolation s)
             + totalShotAttempts (postUp s) + totalShotAttempts (offBallScreen s)
       \<and> totalPoints s
           = totalPoints (pickAndRoll s) + totalPoints (isolation s)
             + totalPoints (postUp s) + totalPoints (offBallScreen s)
       \<and> totalPasses s
           = totalPasses (pickAndRoll s) + totalPasses (isolation s)
             + totalPasses (postUp s) + totalPasses (offBallScreen s)
       \<and> totalPotentialAssists s
           = totalPotentialAssists (pickAndRoll s) + totalPotentialAssists (isolation s)
             + totalPotentialAssists (postUp s) + totalPotentialAssists (offBallScreen s)
       \<and> totalPassingTurnovers s
           = totalPassingTurnovers (pickAndRoll s) + totalPassingTurnovers (isolation s)
             + totalPassingTurnovers (postUp s) + totalPassingTurnovers (offBallScreen s)"
proof -
  from summary_resultD [OF assms(1)] obtain player where s: "s = summary_of db player"
    by blast
  let ?S = "Shot_filter_player db player" and ?P = "Pass_filter_player db player"
  have no_shots: "filter (\<lambda>e. \<not> known_action (shot_action_type e)) ?S = []"
    using assms(2) unfolding s by (simp add: summary_of_totals stray_tables)
  have no_passes: "filter (\<lambda>e. \<not> known_action (pass_action_type e)) ?P = []"
    using assms(3) unfolding s by (simp add: summary_of_totals stray_tables)
  have "totalShotAttempts s
      = totalShotAttempts (pickAndRoll s) + totalShotAttempts (isolation s)
        + totalShotAttempts (postUp s) + totalShotAttempts (offBallScreen s)"
    using length_by_action [of ?S shot_action_type] no_shots unfolding s
    by (simp add: summary_of_totals summary_of_actions get_action_stats_fields)
  moreover have "totalPoints s
      = totalPoints (pickAndRoll s) + totalPoints (isolation s)
        + totalPoints (postUp s) + totalPoints (offBallScreen s)"
    using sum_list_by_action [of shot_points ?S shot_action_type] no_shots unfolding s
    by (simp add: summary_of_totals summary_of_actions get_action_stats_fields)
  moreover have "totalPasses s
      = totalPasses (pickAndRoll s) + totalPasses (isolation s)
        + totalPasses (postUp s) + totalPasses (offBallScreen s)"
    using length_by_action [of ?P pass_action_type] no_passes unfolding s
    by (simp add: summary_of_totals summary_of_actions get_action_stats_fields)
  moreover have "totalPotentialAssists s
      = totalPotentialAssists (pickAndRoll s) + totalPotentialAssists (isolation s)
        + totalPotentialAssists (postUp s) + totalPotentialAssists (offBallScreen s)"
    using length_filter_by_action [of pass_potential_assist ?P pass_action_type] no_passes
    unfolding s
    by (simp add: summary_of_totals summary_of_actions get_action_stats_fields
          del: filter_filter)
  moreover have "totalPassingTurnovers s
      = totalPassingTurnovers (pickAndRoll s) + totalPassingTurnovers (isolation s)
        + totalPassingTurnovers (postUp s) + totalPassingTurnovers (offBallScreen s)"
    using length_filter_by_action [of pass_turnover ?P pass_action_type] no_passes
    unfolding s
    by (simp add: summary_of_totals summary_of_actions get_action_stats_fields
          del: filter_filter)
  ultimately show ?thesis by simp
qed

theorem totals_sum_over_actions_witness:
  "get_player_summary_stats league ''1'' = Inr (Summary (summary_of league player_A))
   \<and> totalShotAttempts (summary_of league player_A) = 0 + 1 + 0 + 0
   \<and> totalPoints (summary_of league player_A) = 0 + 2 + 0 + 0
   \<and> totalPasses (summary_of league player_A) = 1 + 0 + 1 + 0
   \<and> totalPotentialAssists (summary_of league player_A) = 0 + 0 + 1 + 0
   \<and> totalPassingTurnovers (summary_of league player_A) = 0 + 0 + 0 + 0"
proof -
  have id: "playerID (summary_of league player_A) = 1"
    by (simp add: summary_of_totals player_A_def)
  have none: "stray_shots league (playerID (summary_of league player_A)) = []"
    "stray_passes league (playerID (summary_of league player_A)) = []"
    unfolding id
    by (simp_all add: stray_shots_def stray_passes_def league_def known_action_def
          action_types_def row_defs)
  have parts: "totalShotAttempts (pickAndRoll (summary_of league player_A)) = 0"
    "totalShotAttempts (isolation (summary_of league player_A)) = 1"
    "totalShotAttempts (postUp (summary_of league player_A)) = 0"
    "totalShotAttempts (offBallScreen (summary_of league player_A)) = 0"
    "totalPoints (pickAndRoll (summary_of league player_A)) = 0"
    "totalPoints (isolation (summary_of league player_A)) = 2"
    "totalPoints (postUp (summary_of league player_A)) = 0"
    "totalPoints (offBallScreen (summary_of league player_A)) = 0"
    "totalPasses (pickAndRoll (summary_of league player_A)) = 1"
    "totalPasses (isolation (summary_of league player_A)) = 0"
    "totalPasses (postUp (summary_of league player_A)) = 1"
    "totalPasses (offBallScreen (summary_of league player_A)) = 0"
    "totalPotentialAssists (pickAndRoll (summary_of league player_A)) = 0"
    "totalPotentialAssists (isolation (summary_of league player_A)) = 0"
    "totalPotentialAssists (postUp (summary_of league player_A)) = 1"
    "totalPotentialAssists (offBallScreen (summary_of league player_A)) = 0"
    "totalPassingTurnovers (pickAndRoll (summary_of league player_A)) = 0"
    "totalPassingTurnovers (isolation (summary_of league player_A)) = 0"
    "totalPassingTurnovers (postUp (summary_of league player_A)) = 0"
    "totalPassingTurnovers (offBallScreen (summary_of league player_A)) = 0"
    by (simp_all add: summary_of_actions get_action_stats_fields league_tables)
       (simp_all add: row_defs)
  from totals_sum_over_actions [OF league_summary_A none] league_summary_A
  show ?thesis
    by (simp add: parts)
qed

section \<open>The player lookup\<close>

text \<open>\<open>int\<close> on some ids, accepted and refused.\<close>

lemma py_int_examples:
  "py_int '' 12_3 '' = Some 123"
  "py_int ''-7'' = Some (- 7)"
  "py_int ''007'' = Some 7"
  "py_int [CHR 0xA0, CHR ''2'', CHR 0x85] = Some 2"
  "py_int [CHR 0x1C, CHR ''2''] = None"
  "py_int ''+ 2'' = None"
  "py_int ''1__2'' = None"
  "py_int ''2_'' = None"
  "py_int '''' = None"
  by (simp_all add: py_int_def py_literal_def default_max_str_digits_def py_strip_def
        py_isspace_def py_isdigit_def digit_value_def)

lemma py_int_digit_limit: "py_int (replicate 4301 CHR ''1'') = None"
proof -
  have cons: "replicate 4301 CHR ''1'' = CHR ''1'' # replicate 4300 CHR ''1''"
    using replicate_Suc [of 4300 "CHR ''1''"] by simp
  have "py_strip (replicate 4301 CHR ''1'') = replicate 4301 CHR ''1''"
    by (simp add: py_strip_def py_isspace_def dropWhile_replicate)
  then have strip: "py_strip (replicate 4301 CHR ''1'') = CHR ''1'' # replicate 4300 CHR ''1''"
    by (simp only: cons)
  have "length (filter py_isdigit (CHR ''1'' # replicate 4300 CHR ''1'')) = 4301"
    by (simp add: py_isdigit_def)
  then have "py_literal (CHR ''1'' # replicate 4300 CHR ''1'') = None"
    by (simp add: py_literal_def default_max_str_digits_def)
  then show ?thesis
    by (simp add: py_int_def strip)
qed

text \<open>
  For an id that \<open>int\<close> accepts the lookup decides the result: when no player has that
  number, the error dictionary, a returned value whose message carries the id as it was
  passed; when a player has that number, a summary of that player.
\<close>

lemma player_lookup_result:
  assumes "py_int pid = Some n"
  shows "(Player_objects_get db n = None
           \<longrightarrow> get_player_summary_stats db pid
                 = Inr (ErrorDict (''Player with ID '' @ pid @ '' not found'')))
       \<and> (Player_objects_get db n \<noteq> None
           \<longrightarrow> (\<exists>s. get_player_summary_stats db pid = Inr (Summary s) \<and> playerID s = n))"
  using assms
  by (auto simp: get_player_summary_stats_def Player_objects_get_def summary_of_totals
        dest: find_player_id)

lemma player_lookup_result_league:
  "get_player_summary_stats league ''3'' = Inr (ErrorDict ''Player with ID 3 not found'')"
  "\<exists>s. get_player_summary_stats league ''2'' = Inr (Summary s) \<and> playerID s = 2"
proof -
  have three: "py_int ''3'' = Some 3" and two: "py_int ''2'' = Some 2"
    by (simp_all add: py_int_def py_literal_def default_max_str_digits_def py_strip_def
          py_isspace_def py_isdigit_def digit_value_def)
  have absent: "Player_objects_get league 3 = None"
    and present: "Player_objects_get league 2 \<noteq> None"
    by (simp_all add: Player_objects_get_def league_def row_defs)
  show "get_player_summary_stats league ''3''
      = Inr (ErrorDict ''Player with ID 3 not found'')"
    using player_lookup_result [OF three, of league] absent by simp
  show "\<exists>s. get_player_summary_stats league ''2'' = Inr (Summary s) \<and> playerID s = 2"
    using player_lookup_result [OF two, of league] present by simp
qed

text \<open>The ids that \<open>int\<close> refuses leave the function as the \<open>ValueError\<close>.\<close>

lemma refused_id_raises:
  assumes "py_int pid = None"
  shows "get_player_summary_stats db pid = Inl ValueError"
  using assms by (simp add: get_player_summary_stats_def)

text \<open>
  Claim C6 at the id \<open>'abc'\<close>. No player of the league resolves from it, so the claim,
  like the docstring of the function, gives the error dictionary that carries the id,
  as a returned value. The code raises \<open>ValueError\<close> instead: \<open>int(player_id)\<close> fails
  before the lookup, and the only handler is for \<open>Player.DoesNotExist\<close>.
\<close>

theorem non_numeric_id_failing_input:
  "py_int ''abc'' = None
   \<and> get_player_summary_stats league ''abc'' = Inl ValueError
   \<and> get_player_summary_stats league ''abc''
     \<noteq> Inr (ErrorDict ''Player with ID abc not found'')"
  by (simp add: get_player_summary_stats_def py_int_def py_literal_def
        default_max_str_digits_def py_strip_def py_isspace_def py_isdigit_def)

section \<open>The example of the specification\<close>

lemma length_filter_image_mset:
  "length (filter (\<lambda>e. P (f e)) xs) = size (filter_mset P (image_mset f (mset xs)))"
  by (induction xs) simp_all

lemma sum_list_filter_image_mset:
  fixes g :: "'b \<Rightarrow> int"
  shows "sum_list (map (\<lambda>e. g (f e)) (filter (\<lambda>e. P (f e)) xs))
     = sum_mset (image_mset g (filter_mset P (image_mset f (mset xs))))"
  by (induction xs) simp_all

text \<open>
  Claim C7. If a player has exactly three pick-and-roll shots worth 2, 2 and 3 points and
  one isolation shot worth 0 points, and no passes or turnovers, then the summary has
  \<open>totalShotAttempts = 4\<close>, \<open>totalPoints = 7\<close>, \<open>pickAndRoll.totalPoints = 7\<close>,
  \<open>isolation.totalPoints = 0\<close>, \<open>pickAndRollCount = 3\<close>, \<open>isolationCount = 1\<close>,
  \<open>postUpCount = 0\<close> and \<open>offBallScreenCount = 0\<close>.
\<close>

theorem spec_example_summary:
  assumes "get_player_summary_stats db pid = Inr (Summary s)"
    and "image_mset (\<lambda>e. (shot_action_type e, shot_points e))
           (mset (filter (\<lambda>e. shot_player e = playerID s) (Shot_objects db)))
         = {#(''pickAndRoll'', 2), (''pickAndRoll'', 2), (''pickAndRoll'', 3),
             (''isolation'', 0)#}"
    and "filter (\<lambda>e. pass_player e = playerID s) (Pass_objects db) = []"
    and "filter (\<lambda>e. tov_player e = playerID s) (Turnover_objects db) = []"
  shows "totalShotAttempts s = 4 \<and> totalPoints s = 7
       \<and> totalPoints (pickAndRoll s) = 7 \<and> totalPoints (isolation s) = 0
       \<and> pickAndRollCount s = 3 \<and> isolationCount s = 1
       \<and> postUpCount s = 0 \<and> offBallScreenCount s = 0"
proof -
  from summary_resultD [OF assms(1)] obtain player where s: "s = summary_of db player"
    by blast
  let ?S = "Shot_filter_player db player"
  let ?f = "\<lambda>e. (shot_action_type e, shot_points e)"
  have M: "image_mset ?f (mset ?S)
      = {#(''pickAndRoll'', 2), (''pickAndRoll'', 2), (''pickAndRoll'', 3),
          (''isolation'', 0)#}"
    using assms(2) unfolding s by (simp add: summary_of_totals Shot_filter_player_def)
  have P: "Pass_filter_player db player = []"
    using assms(3) unfolding s by (simp add: summary_of_totals Pass_filter_player_def)
  have T: "Turnover_filter_player db player = []"
    using assms(4) unfolding s by (simp add: summary_of_totals Turnover_filter_player_def)
  have count: "int (length (filter (\<lambda>e. shot_action_type e = a) ?S))
      = int (size (filter_mset (\<lambda>x. fst x = a)
          {#(''pickAndRoll'', 2::int), (''pickAndRoll'', 2), (''pickAndRoll'', 3),
            (''isolation'', 0)#}))" for a
    using length_filter_image_mset [of "\<lambda>x. fst x = a" ?f ?S] unfolding M by simp
  have pts: "sum_list (map shot_points (filter (\<lambda>e. shot_action_type e = a) ?S))
      = sum_mset (image_mset snd (filter_mset (\<lambda>x. fst x = a)
          {#(''pickAndRoll'', 2::int), (''pickAndRoll'', 2), (''pickAndRoll'', 3),
            (''isolation'', 0)#}))" for a
    using sum_list_filter_image_mset [of snd ?f "\<lambda>x. fst x = a" ?S] unfolding M by simp
  have all: "int (length ?S) = 4"
    using length_filter_image_mset [of "\<lambda>x. True" ?f ?S] unfolding M by simp
  have all_pts: "sum_list (map shot_points ?S) = 7"
    using sum_list_filter_image_mset [of snd ?f "\<lambda>x. True" ?S] unfolding M by simp
  have "totalShotAttempts s = 4" "totalPoints s = 7"
    unfolding s by (simp_all add: summary_of_totals all all_pts)
  moreover have "totalPoints (pickAndRoll s) = 7" "totalPoints (isolation s) = 0"
    unfolding s by (simp_all add: summary_of_actions get_action_stats_fields pts)
  moreover have "pickAndRollCount s = 3" "isolationCount s = 1"
    "postUpCount s = 0" "offBallScreenCount s = 0"
    unfolding s by (simp_all add: summary_of_counts action_count_def P T count)
  ultimately show ?thesis by simp
qed

theorem spec_example_summary_witness:
  "(\<exists>s. get_player_summary_stats example_db ''7'' = Inr (Summary s)
        \<and> name s = ''P'' \<and> playerID s = 7
        \<and> totalShotAttempts s = 4 \<and> totalPoints s = 7
        \<and> totalPoints (pickAndRoll s) = 7 \<and> totalPoints (isolation s) = 0
        \<and> pickAndRollCount s = 3 \<and> isolationCount s = 1
        \<and> postUpCount s = 0 \<and> offBallScreenCount s = 0)"
proof -
  let ?P = "\<lparr>player_id = 7, player_name = ''P'', player_team = 10\<rparr>"
  have res: "get_player_summary_stats example_db ''7''
      = Inr (Summary (summary_of example_db ?P))"
    by (simp add: get_player_summary_stats_def py_int_def py_literal_def default_max_str_digits_def py_strip_def py_isspace_def
          py_isdigit_def digit_value_def Player_objects_get_def example_db_def)
  have id: "playerID (summary_of example_db ?P) = 7" "name (summary_of example_db ?P) = ''P''"
    by (simp_all add: summary_of_totals)
  have shots: "image_mset (\<lambda>e. (shot_action_type e, shot_points e))
           (mset (filter (\<lambda>e. shot_player e = playerID (summary_of example_db ?P))
                    (Shot_objects example_db)))
         = {#(''pickAndRoll'', 2), (''pickAndRoll'', 2), (''pickAndRoll'', 3),
             (''isolation'', 0)#}"
    unfolding id by (simp add: example_db_def row_defs)
  have none: "filter (\<lambda>e. pass_player e = playerID (summary_of example_db ?P))
                (Pass_objects example_db) = []"
    "filter (\<lambda>e. tov_player e = playerID (summary_of example_db ?P))
       (Turnover_objects example_db) = []"
    unfolding id by (simp_all add: example_db_def row_defs)
  from spec_example_summary [OF res shots none] show ?thesis
    using res id by simp
qed

section \<open>The order in which the store returns rows\<close>

lemma find_distinct_iff:
  assumes "distinct (map f xs)"
  shows "find (\<lambda>p. f p = n) xs = Some p \<longleftrightarrow> p \<in> set xs \<and> f p = n"
  using assms by (induction xs) force+

lemma find_same_rows:
  assumes "mset ys = mset xs" and "distinct (map f xs)"
  shows "find (\<lambda>p. f p = n) ys = find (\<lambda>p. f p = n) xs"
proof -
  have "mset (map f ys) = mset (map f xs)"
    using assms(1) by simp
  then have dys: "distinct (map f ys)"
    using assms(2) by (metis mset_eq_imp_distinct_iff)
  have sets: "set ys = set xs"
    using assms(1) by (rule mset_eq_setD)
  show ?thesis
  proof (cases "find (\<lambda>p. f p = n) xs")
    case None
    then have "find (\<lambda>p. f p = n) ys = None"
      by (simp add: find_None_iff sets)
    with None show ?thesis by simp
  next
    case (Some p)
    then have "find (\<lambda>p. f p = n) ys = Some p"
      by (simp add: find_distinct_iff [OF assms(2)] find_distinct_iff [OF dys] sets)
    with Some show ?thesis by simp
  qed
qed

lemma same_rows_length_filter:
  assumes "mset ys = mset xs"
  shows "length (filter P ys) = length (filter P xs)"
proof -
  have "mset (filter P ys) = mset (filter P xs)"
    using assms by simp
  then show ?thesis
    by (rule mset_eq_length)
qed

lemma same_rows_sum_list:
  fixes g :: "'a \<Rightarrow> int"
  assumes "mset ys = mset xs"
  shows "sum_list (map g (filter P ys)) = sum_list (map g (filter P xs))"
proof -
  have "mset (map g (filter P ys)) = mset (map g (filter P xs))"
    using assms by simp
  then have "sum_mset (mset (map g (filter P ys))) = sum_mset (mset (map g (filter P xs)))"
    by (rule arg_cong)
  then show ?thesis
    by (simp only: sum_mset_sum_list)
qed

lemma same_rows_map_filter:
  assumes "mset ys = mset xs"
  shows "mset (map h (filter P ys)) = mset (map h (filter P xs))"
  using assms by simp

lemma action_view_same_rows:
  assumes "mset ss' = mset ss" and "mset ps' = mset ps" and "mset ts' = mset ts"
  shows "action_view_of (get_action_stats ss' ps' ts' a)
       = action_view_of (get_action_stats ss ps ts a)"
proof -
  have fp: "mset (filter (\<lambda>p. pass_action_type p = a) ps')
      = mset (filter (\<lambda>p. pass_action_type p = a) ps)"
    using assms(2) by simp
  show ?thesis
    unfolding action_view_of_def scalar_totals_def get_action_stats_fields
      shots_data_def passes_data_def turnovers_data_def
    using same_rows_length_filter [OF assms(1), of "\<lambda>s. shot_action_type s = a"]
      same_rows_sum_list [OF assms(1), of shot_points "\<lambda>s. shot_action_type s = a"]
      same_rows_length_filter [OF assms(2), of "\<lambda>p. pass_action_type p = a"]
      same_rows_length_filter [OF fp, of pass_potential_assist]
      same_rows_length_filter [OF fp, of pass_turnover]
      same_rows_length_filter [OF assms(3), of "\<lambda>t. tov_action_type t = a"]
      assms
    by (simp del: filter_filter)
qed

lemma action_count_same_rows:
  assumes "mset ss' = mset ss" and "mset ps' = mset ps" and "mset ts' = mset ts"
  shows "action_count ss' ps' ts' a = action_count ss ps ts a"
  unfolding action_count_def
  using same_rows_length_filter [OF assms(1), of "\<lambda>s. shot_action_type s = a"]
    same_rows_length_filter [OF assms(2), of "\<lambda>p. pass_action_type p = a"]
    same_rows_length_filter [OF assms(3), of "\<lambda>t. tov_action_type t = a"]
  by simp

lemma summary_view_same_rows:
  assumes "mset (Shot_objects db') = mset (Shot_objects db)"
    and "mset (Pass_objects db') = mset (Pass_objects db)"
    and "mset (Turnover_objects db') = mset (Turnover_objects db)"
  shows "summary_view (summary_of db' p) = summary_view (summary_of db p)"
proof -
  have S: "mset (Shot_filter_player db' p) = mset (Shot_filter_player db p)"
    and P: "mset (Pass_filter_player db' p) = mset (Pass_filter_player db p)"
    and T: "mset (Turnover_filter_player db' p) = mset (Turnover_filter_player db p)"
    using assms
    by (simp_all add: Shot_filter_player_def Pass_filter_player_def
          Turnover_filter_player_def)
  have totals: "scalar_totals (summary_of db' p) = scalar_totals (summary_of db p)"
    unfolding scalar_totals_def summary_of_totals
    using mset_eq_length [OF S] mset_eq_length [OF P] mset_eq_length [OF T]
      same_rows_sum_list [OF S, of shot_points "\<lambda>_. True"]
      same_rows_length_filter [OF P, of pass_potential_assist]
      same_rows_length_filter [OF P, of pass_turnover]
    by simp
  show ?thesis
    unfolding summary_view_def
    by (simp add: totals summary_of_totals summary_of_counts summary_of_actions
          action_view_same_rows [OF S P T] action_count_same_rows [OF S P T])
qed

text \<open>
  Claim C8. Two calls for the same id against the same rows return the same result,
  whatever the order in which the store returns the rows: every scalar is the same, and
  each detail list holds the same entries, possibly in another order. Player ids are
  unique, as the primary key of the table makes them.
\<close>

theorem summary_independent_of_row_order:
  assumes "mset (Player_objects db') = mset (Player_objects db)"
    and "distinct (map player_id (Player_objects db))"
    and "mset (Shot_objects db') = mset (Shot_objects db)"
    and "mset (Pass_objects db') = mset (Pass_objects db)"
    and "mset (Turnover_objects db') = mset (Turnover_objects db)"
  shows "result_view (get_player_summary_stats db' pid)
       = result_view (get_player_summary_stats db pid)"
proof (cases "py_int pid")
  case None
  then show ?thesis
    by (simp add: get_player_summary_stats_def)
next
  case (Some n)
  have lookup: "Player_objects_get db' n = Player_objects_get db n"
    unfolding Player_objects_get_def by (rule find_same_rows [OF assms(1,2)])
  show ?thesis
  proof (cases "Player_objects_get db n")
    case None
    with Some lookup show ?thesis
      by (simp add: get_player_summary_stats_def)
  next
    case (Some player)
    with \<open>py_int pid = Some n\<close> lookup show ?thesis
      by (simp add: get_player_summary_stats_def result_view_def
            summary_view_same_rows [OF assms(3,4,5)])
  qed
qed

theorem summary_independent_of_row_order_witness:
  "mset (Shot_objects league_reversed) = mset (Shot_objects league)
   \<and> Turnover_objects league_reversed \<noteq> Turnover_objects league
   \<and> result_view (get_player_summary_stats league_reversed ''1'')
     = result_view (get_player_summary_stats league ''1'')"
proof -
  have rows: "mset (Player_objects league_reversed) = mset (Player_objects league)"
    "mset (Shot_objects league_reversed) = mset (Shot_objects league)"
    "mset (Pass_objects league_reversed) = mset (Pass_objects league)"
    "mset (Turnover_objects league_reversed) = mset (Turnover_objects league)"
    by (simp_all add: league_reversed_def)
  have key: "distinct (map player_id (Player_objects league))"
    by (simp add: league_def row_defs)
  have other: "Turnover_objects league_reversed \<noteq> Turnover_objects league"
    by (simp add: league_reversed_def league_def row_defs)
  have view: "result_view (get_player_summary_stats league_reversed ''1'')
      = result_view (get_player_summary_stats league ''1'')"
    by (rule summary_independent_of_row_order [OF rows(1) key rows(2,3,4)])
  from rows(2) other view show ?thesis
    by (intro conjI)
qed

section \<open>Ranks\<close>

lemma Count_left_outer_join:
  "Count (\<lambda>r. r \<noteq> None) (left_outer_join xs) = int (length xs)"
  by (simp add: Count_def left_outer_join_def filter_map o_def)

lemma Count_filter_left_outer_join:
  "Count (\<lambda>r. case r of None \<Rightarrow> False | Some x \<Rightarrow> P x) (left_outer_join xs)
     = int (length (filter P xs))"
  by (simp add: Count_def left_outer_join_def filter_map o_def)

lemma length_left_outer_join: "length (left_outer_join xs) = max 1 (length xs)"
  by (cases xs) (simp_all add: left_outer_join_def)

lemma length_filter_product_fst:
  "length (filter (\<lambda>(a, b). P a) (List.product xs ys)) = length (filter P xs) * length ys"
  by (induction xs) (simp_all add: filter_map o_def)

lemma length_filter_product_snd:
  "length (filter (\<lambda>(a, b). Q b) (List.product xs ys)) = length xs * length (filter Q ys)"
  by (induction xs) (simp_all add: filter_map o_def)

lemma count_better_fold:
  "fold (\<lambda>p better_count. if val p > v then better_count + 1 else better_count) ps acc
     = acc + int (length (filter (\<lambda>p. val p > v) ps))"
  by (induction ps arbitrary: acc) simp_all

lemma count_better_filter:
  "count_better val v ps = int (length (filter (\<lambda>p. val p > v) ps))"
  by (simp add: count_better_def count_better_fold)

lemma or_0_points__sum:
  "or_0 (points__sum db p) = totalPoints (summary_of db p)"
  by (simp add: or_0_def points__sum_def Let_def summary_of_totals)

lemma count_action_summary:
  "count_action db p a
     = action_count (Shot_filter_player db p) (Pass_filter_player db p)
         (Turnover_filter_player db p) a"
  by (simp add: count_action_def action_count_def filter_player_action_shot
        filter_player_action_pass filter_player_action_tov)

lemma annotations_summary:
  "shot_count db p = totalShotAttempts (summary_of db p)"
  "pass_count db p = totalPasses (summary_of db p)"
  "assist_count db p = totalPotentialAssists (summary_of db p)"
  "pass_tov_count db p = totalPassingTurnovers (summary_of db p)"
  by (simp_all only: shot_count_def pass_count_def assist_count_def pass_tov_count_def
        Count_left_outer_join Count_filter_left_outer_join summary_of_totals)

text \<open>
  What the annotation for \<open>totalTurnovers\<close> computes: each standalone turnover is counted
  once per pass of the player, and each passing turnover once per standalone turnover.
\<close>

lemma tov_count_product:
  "tov_count db p
     = int (length (Turnover_filter_player db p))
         * int (max 1 (length (Pass_filter_player db p)))
       + int (max 1 (length (Turnover_filter_player db p)))
         * int (length (filter pass_turnover (Pass_filter_player db p)))"
proof -
  have tovs: "length (filter (\<lambda>(tov, pass). tov \<noteq> None)
         (List.product (left_outer_join (Turnover_filter_player db p))
            (left_outer_join (Pass_filter_player db p))))
      = length (Turnover_filter_player db p) * max 1 (length (Pass_filter_player db p))"
    using Count_left_outer_join [of "Turnover_filter_player db p"]
    by (simp add: length_filter_product_fst length_left_outer_join Count_def)
  have passes: "length (filter (\<lambda>(tov, pass). case pass of None \<Rightarrow> False
                                     | Some x \<Rightarrow> pass_turnover x)
         (List.product (left_outer_join (Turnover_filter_player db p))
            (left_outer_join (Pass_filter_player db p))))
      = max 1 (length (Turnover_filter_player db p))
        * length (filter pass_turnover (Pass_filter_player db p))"
    using Count_filter_left_outer_join [of pass_turnover "Pass_filter_player db p"]
    by (simp add: length_filter_product_snd length_left_outer_join Count_def)
  show ?thesis
    unfolding tov_count_def Let_def Count_def tovs passes by simp
qed

text \<open>
  For each of the nine other metrics the rank is one plus the number of players whose
  summary has a strictly greater value than the target read from the given summary.
\<close>

lemma rank_of_nine_metrics:
  "totalShotAttemptsRank (get_ranks db pid d)
     = 1 + int (length (filter (\<lambda>q. totalShotAttempts (summary_of db q)
                                   > summary_get d ''totalShotAttempts'' 0)
                          (Player_objects db)))"
  "totalPointsRank (get_ranks db pid d)
     = 1 + int (length (filter (\<lambda>q. totalPoints (summary_of db q)
                                   > summary_get d ''totalPoints'' 0)
                          (Player_objects db)))"
  "totalPassesRank (get_ranks db pid d)
     = 1 + int (length (filter (\<lambda>q. totalPasses (summary_of db q)
                                   > summary_get d ''totalPasses'' 0)
                          (Player_objects db)))"
  "totalPotentialAssistsRank (get_ranks db pid d)
     = 1 + int (length (filter (\<lambda>q. totalPotentialAssists (summary_of db q)
                                   > summary_get d ''totalPotentialAssists'' 0)
                          (Player_objects db)))"
  "totalPassingTurnoversRank (get_ranks db pid d)
     = 1 + int (length (filter (\<lambda>q. totalPassingTurnovers (summary_of db q)
                                   > summary_get d ''totalPassingTurnovers'' 0)
                          (Player_objects db)))"
  "pickAndRollCountRank (get_ranks db pid d)
     = 1 + int (length (filter (\<lambda>q. pickAndRollCount (summary_of db q)
                                   > summary_get d ''pickAndRollCount'' 0)
                          (Player_objects db)))"
  "isolationCountRank (get_ranks db pid d)
     = 1 + int (length (filter (\<lambda>q. isolationCount (summary_of db q)
                                   > summary_get d ''isolationCount'' 0)
                          (Player_objects db)))"
  "postUpCountRank (get_ranks db pid d)
     = 1 + int (length (filter (\<lambda>q. postUpCount (summary_of db q)
                                   > summary_get d ''postUpCount'' 0)
                          (Player_objects db)))"
  "offBallScreenCountRank (get_ranks db pid d)
     = 1 + int (length (filter (\<lambda>q. offBallScreenCount (summary_of db q)
                                   > summary_get d ''offBallScreenCount'' 0)
                          (Player_objects db)))"
  by (simp_all add: get_ranks_def calculate_rank_def filter_gt_count_def
        count_better_filter annotations_summary or_0_points__sum count_action_summary
        summary_of_counts)

text \<open>
  For \<open>totalTurnovers\<close> the players counted are those whose annotation, not whose
  summary value, exceeds the target.
\<close>

lemma rank_of_total_turnovers:
  "totalTurnoversRank (get_ranks db pid d)
     = 1 + int (length (filter (\<lambda>q. tov_count db q > summary_get d ''totalTurnovers'' 0)
                          (Player_objects db)))"
  by (simp add: get_ranks_def calculate_rank_def filter_gt_count_def)

text \<open>
  The example of the specification: of three players, two have 50 points and one has
  40; the two leaders get rank 1 and the third gets rank 3.
\<close>

lemma total_points_tie_example:
  assumes "Player_objects db = [p1, p2, p3]"
    and "totalPoints (summary_of db p1) = 50" and "totalPoints (summary_of db p2) = 50"
    and "totalPoints (summary_of db p3) = 40"
  shows "totalPointsRank (get_ranks db pid1 (Summary (summary_of db p1))) = 1"
    and "totalPointsRank (get_ranks db pid2 (Summary (summary_of db p2))) = 1"
    and "totalPointsRank (get_ranks db pid3 (Summary (summary_of db p3))) = 3"
  using assms by (simp_all add: rank_of_nine_metrics summary_get_def)

text \<open>
  Claim C1 at the league of two players. Player B has the most turnovers of the league,
  3 against the 2 of player A, so no player has strictly more and the rank that the claim
  gives is 1. The code returns 2: the annotation of player A is 4, its two standalone
  turnovers counted once for each of its two passes.
\<close>

theorem total_turnovers_rank_failing_input:
  "Player_objects league = [player_A, player_B]
   \<and> get_player_summary_stats league ''1'' = Inr (Summary (summary_of league player_A))
   \<and> get_player_summary_stats league ''2'' = Inr (Summary (summary_of league player_B))
   \<and> totalTurnovers (summary_of league player_A) = 2
   \<and> totalTurnovers (summary_of league player_B) = 3
   \<and> tov_count league player_A = 4
   \<and> totalTurnoversRank (get_ranks league ''2'' (Summary (summary_of league player_B))) = 2"
proof -
  have A: "totalTurnovers (summary_of league player_A) = 2"
    and B: "totalTurnovers (summary_of league player_B) = 3"
    by (simp_all add: summary_of_totals league_tables) (simp_all add: row_defs)
  have tA: "tov_count league player_A = 4" and tB: "tov_count league player_B = 3"
    by (simp_all add: tov_count_product league_tables) (simp_all add: row_defs)
  have target: "summary_get (Summary (summary_of league player_B)) ''totalTurnovers'' 0 = 3"
    by (simp add: summary_get_def B)
  have players: "Player_objects league = [player_A, player_B]"
    by (simp add: league_def)
  have rank: "totalTurnoversRank (get_ranks league ''2'' (Summary (summary_of league player_B)))
      = 2"
    unfolding rank_of_total_turnovers target players by (simp add: tA tB)
  from players league_summary_A league_summary_B A B tA rank show ?thesis
    by (intro conjI)
qed

end
